theory Spec2Isabelle
  imports Complex_Main
begin

section \<open>Arithmetic of the embedding\<close>

text \<open>
  The program is \<^verbatim>\<open>Falha_Tsai_Wu.py\<close>: the class \<^verbatim>\<open>Tsai_Wu\<close> (constructor and the method
  \<^verbatim>\<open>criterio\<close>) and the function \<^verbatim>\<open>tensao\<close>. Its numbers are Python floats and, from
  the first call of \<^verbatim>\<open>np.sqrt\<close> on, numpy \<^verbatim>\<open>float64\<close> scalars.

  Finite numbers are embedded as exact reals: rounding, overflow and underflow are not
  part of the model, and the real zero stands for \<^verbatim>\<open>+0.0\<close>. What the model keeps of the
  two number types is how they treat a division by zero and a square root of a negative
  number, because that is control flow of the program:
  \<^item> a division of Python floats by zero raises \<^verbatim>\<open>ZeroDivisionError\<close>;
  \<^item> a division of a numpy scalar by zero yields an infinity or a NaN and goes on, and
    \<^verbatim>\<open>np.sqrt\<close> of a negative scalar yields NaN.
\<close>

datatype py_error = ZeroDivisionError

definition py_bind :: "py_error + 'a \<Rightarrow> ('a \<Rightarrow> py_error + 'b) \<Rightarrow> py_error + 'b" where
  "py_bind r f = (case r of Inl e \<Rightarrow> Inl e | Inr v \<Rightarrow> f v)"

text \<open>\<^verbatim>\<open>a / b\<close> on Python floats.\<close>

definition py_div :: "real \<Rightarrow> real \<Rightarrow> py_error + real" where
  "py_div a b = (if b = 0 then Inl ZeroDivisionError else Inr (a / b))"

text \<open>\<^verbatim>\<open>a / b / c\<close> on Python floats: left to right, each division may raise.\<close>

definition py_div2 :: "real \<Rightarrow> real \<Rightarrow> real \<Rightarrow> py_error + real" where
  "py_div2 a b c = py_bind (py_div a b) (\<lambda>q. py_div q c)"

text \<open>
  A numpy \<^verbatim>\<open>float64\<close> scalar: a finite number, one of the two infinities, or NaN. The
  four operations below are the ones \<^verbatim>\<open>criterio\<close> applies to such scalars in its
  safety-factor expression; they follow IEEE 754 on the special values.
\<close>

datatype float64 = Finite real | PInf | NInf | NaN

fun np_sqrt :: "float64 \<Rightarrow> float64" where
  "np_sqrt (Finite a) = (if a < 0 then NaN else Finite (sqrt a))"
| "np_sqrt PInf = PInf"
| "np_sqrt NInf = NaN"
| "np_sqrt NaN = NaN"

fun np_sub :: "float64 \<Rightarrow> float64 \<Rightarrow> float64" where
  "np_sub (Finite a) (Finite b) = Finite (a - b)"
| "np_sub (Finite a) PInf = NInf"
| "np_sub (Finite a) NInf = PInf"
| "np_sub PInf (Finite b) = PInf"
| "np_sub PInf NInf = PInf"
| "np_sub NInf (Finite b) = NInf"
| "np_sub NInf PInf = NInf"
| "np_sub _ _ = NaN"

fun np_mul :: "float64 \<Rightarrow> float64 \<Rightarrow> float64" where
  "np_mul (Finite a) (Finite b) = Finite (a * b)"
| "np_mul (Finite a) PInf = (if 0 < a then PInf else if a < 0 then NInf else NaN)"
| "np_mul (Finite a) NInf = (if 0 < a then NInf else if a < 0 then PInf else NaN)"
| "np_mul PInf (Finite b) = (if 0 < b then PInf else if b < 0 then NInf else NaN)"
| "np_mul NInf (Finite b) = (if 0 < b then NInf else if b < 0 then PInf else NaN)"
| "np_mul PInf PInf = PInf"
| "np_mul PInf NInf = NInf"
| "np_mul NInf PInf = NInf"
| "np_mul NInf NInf = PInf"
| "np_mul _ _ = NaN"

fun np_div :: "float64 \<Rightarrow> float64 \<Rightarrow> float64" where
  "np_div (Finite a) (Finite b) =
     (if b = 0 then (if 0 < a then PInf else if a < 0 then NInf else NaN)
      else Finite (a / b))"
| "np_div (Finite a) PInf = Finite 0"
| "np_div (Finite a) NInf = Finite 0"
| "np_div PInf (Finite b) = (if b < 0 then NInf else PInf)"
| "np_div NInf (Finite b) = (if b < 0 then PInf else NInf)"
| "np_div _ _ = NaN"


section \<open>The class \<^verbatim>\<open>Tsai_Wu\<close>\<close>

text \<open>The attributes of an object, in the order in which \<^verbatim>\<open>__init__\<close> assigns them.\<close>

record Tsai_Wu =
  F11 :: real
  F33 :: real
  F1 :: real
  F3 :: real
  F66 :: real
  F44 :: real
  F2 :: real
  F22 :: real
  F55 :: real
  F12 :: real
  F13 :: real
  F23 :: real

text \<open>
  \<^verbatim>\<open>__init__(self, Xc, Xt, Zc, Zt, Sxy, Syz, Yc = None, Yt = None, Sxz = None)\<close>.
  An optional parameter is \<open>None\<close> when it is left out. The result is the constructed
  object, or the exception that one of the divisions raised. \<^verbatim>\<open>np.sqrt\<close> is applied to
  \<open>F66\<close>, \<open>F55\<close> and \<open>F44\<close> only, each the reciprocal of a non-zero square, so the real
  square root is what it returns there (lemma \<open>Tsai_Wu_init_shear_pos\<close>).
\<close>

definition Tsai_Wu_init ::
  "real \<Rightarrow> real \<Rightarrow> real \<Rightarrow> real \<Rightarrow> real \<Rightarrow> real \<Rightarrow>
   real option \<Rightarrow> real option \<Rightarrow> real option \<Rightarrow> py_error + Tsai_Wu" where
  "Tsai_Wu_init Xc Xt Zc Zt Sxy Syz Yc Yt Sxz =
     py_bind (py_div2 1 Xc Xt) (\<lambda>f11.
     py_bind (py_div2 1 Zc Zt) (\<lambda>f33.
     py_bind (py_div2 (Xc - Xt) Xc Xt) (\<lambda>f1.
     py_bind (py_div2 (Zc - Zt) Zc Zt) (\<lambda>f3.
     py_bind (py_div 1 (Sxy ^ 2)) (\<lambda>f66.
     py_bind (py_div 1 (Syz ^ 2)) (\<lambda>f44.
     py_bind
       (case (Yc, Yt, Sxz) of
          (Some yc, Some yt, Some sxz) \<Rightarrow>
            py_bind (py_div2 (yc - yt) yc yt) (\<lambda>f2.
            py_bind (py_div2 1 yc yt) (\<lambda>f22.
            py_bind (py_div 1 (sxz ^ 2)) (\<lambda>f55.
            Inr (f2, f22, f55))))
        | _ \<Rightarrow> Inr (f1, f11, f44))
       (\<lambda>(f2, f22, f55).
     let f12 = 4 * sqrt f66 - (2 * f1 * sqrt f66 + 2 * f2 * sqrt f66 + f11 + f22 + f66);
         f13 = 4 * sqrt f55 - (2 * f1 * sqrt f55 + 2 * f3 * sqrt f55 + f11 + f33 + f55);
         f23 = 4 * sqrt f44 - (2 * f2 * sqrt f44 + 2 * f3 * sqrt f44 + f22 + f33 + f44)
     in Inr \<lparr>F11 = f11, F33 = f33, F1 = f1, F3 = f3, F66 = f66, F44 = f44,
             F2 = f2, F22 = f22, F55 = f55, F12 = f12, F13 = f13, F23 = f23\<rparr>)))))))"

text \<open>
  What \<^verbatim>\<open>criterio\<close> prints: one of its two message templates, with the two values it
  interpolates, the failure index \<open>R\<close> and the safety factor. \<open>Vai_falhar\<close> is the line
  \<^verbatim>\<open>O material vai falhar, R = ..., fator de seguranca = ...\<close> of the branch
  \<^verbatim>\<open>np.abs(R) >= 1\<close>, \<open>Nao_vai_falhar\<close> the line of the other branch.
\<close>

datatype line =
    line_falha: Vai_falhar (line_R: real) (line_fator: float64)
  | Nao_vai_falhar (line_R: real) (line_fator: float64)

text \<open>
  \<^verbatim>\<open>criterio(self, x = 0, y = 0, z = 0, xy = 0, xz = 0, yz = 0)\<close>: the line printed and
  the value returned, which is \<^verbatim>\<open>self\<close>. The body assigns to no attribute. \<open>R\<close> and \<open>A\<close>
  are numpy scalars (they contain \<open>F12\<close>), finite as sums of products of finite numbers;
  \<^verbatim>\<open>1/2/A\<close> is therefore numpy's division, and the square root is \<^verbatim>\<open>np.sqrt\<close>.
\<close>

definition criterio ::
  "Tsai_Wu \<Rightarrow> real \<Rightarrow> real \<Rightarrow> real \<Rightarrow> real \<Rightarrow> real \<Rightarrow> real \<Rightarrow> line \<times> Tsai_Wu" where
  "criterio self x y z xy xz yz =
     (let R = F1 self * x + F2 self * y + F3 self * z
            + F11 self * (x ^ 2) + F22 self * (y ^ 2) + F33 self * (z ^ 2)
            + F44 self * (yz ^ 2) + F55 self * (xz ^ 2) + F66 self * (xy ^ 2)
            + 2 * F12 self * x * y + 2 * F13 self * x * z + 2 * F23 self * y * z
      in if \<bar>R\<bar> \<ge> 1 then
           (let A = F11 self * x ^ 2 + F22 self * y ^ 2 + F33 self * z ^ 2
                  + F44 self * yz + F55 self * xz + F66 self * xy
                  - F12 self * x * y - F13 self * x * z - F23 self * y * z;
                B = F1 self * x + F2 self * y + F3 self * z
            in (Vai_falhar R
                  (np_mul (np_div (Finite (1 / 2)) (Finite A))
                          (np_sub (np_sqrt (Finite (B ^ 2 + 4 * A))) (Finite B))),
                self))
         else
           (let A = F11 self * x ^ 2 + F22 self * y ^ 2 + F33 self * z ^ 2
                  + F44 self * yz + F55 self * xz + F66 self * xy
                  - F12 self * x * y - F13 self * x * z - F23 self * y * z;
                B = F1 self * x + F2 self * y + F3 self * z
            in (Nao_vai_falhar R
                  (np_mul (np_div (Finite (1 / 2)) (Finite A))
                          (np_sub (np_sqrt (Finite (B ^ 2 + 4 * A))) (Finite B))),
                self)))"

text \<open>
  The safety factor as the specification writes it, \<open>k = (sqrt(B^2 + 4A) - B) / (2A)\<close>,
  read as a floating-point expression on numpy scalars: a comparison term for
  \<open>criterio\<close>, which divides \<open>1/2\<close> by \<open>A\<close> first and multiplies afterwards.
\<close>

definition safety_factor_spec :: "real \<Rightarrow> real \<Rightarrow> float64" where
  "safety_factor_spec A B =
     np_div (np_sub (np_sqrt (Finite (B ^ 2 + 4 * A))) (Finite B)) (Finite (2 * A))"


section \<open>The function \<^verbatim>\<open>tensao\<close>\<close>

text \<open>
  \<^verbatim>\<open>tensao(h, b, t, MF, MTp, FC, MTt)\<close> on Python floats. The divisions by the
  literals 12 and 2 cannot raise; the divisions by \<open>Ix\<close>, \<open>J\<close> and \<open>Ix*(2*t)\<close> can, in
  the order in which the body evaluates them.
\<close>

definition tensao ::
  "real \<Rightarrow> real \<Rightarrow> real \<Rightarrow> real \<Rightarrow> real \<Rightarrow> real \<Rightarrow> real \<Rightarrow>
   py_error + (real \<times> real \<times> real \<times> real \<times> real \<times> real)" where
  "tensao h b t MF MTp FC MTt =
     (let Ix = b * (h ^ 3) / 12 - ((b - 2 * t) * ((h - 2 * t) ^ 3)) / 12;
          Iy = h * (b ^ 3) / 12 - ((h - 2 * t) * ((b - 2 * t) ^ 3)) / 12;
          J = Ix + Iy;
          Q = (h * b - (h - 2 * t) * (b - 2 * t)) * h / 2
      in py_bind (py_div (MF * (h / 2)) Ix) (\<lambda>q.
         let X = - q in
         py_bind (py_div (MTt * (h / 2)) J) (\<lambda>q1.
         py_bind (py_div (MTp * (h / 2)) J) (\<lambda>q2.
         py_bind (py_div (FC * Q) (Ix * (2 * t))) (\<lambda>q3.
         let yz = \<bar>q1\<bar> + \<bar>q2\<bar> + \<bar>q3\<bar> in
         Inr (X, 0, 0, 0, 0, yz))))))"


section \<open>Properties: when a division raises\<close>

lemma py_bind_Inl [simp]: "py_bind (Inl e) f = Inl e"
  by (simp add: py_bind_def)

lemma py_bind_Inr [simp]: "py_bind (Inr v) f = f v"
  by (simp add: py_bind_def)

lemma py_div_zero [simp]: "py_div a 0 = Inl ZeroDivisionError"
  by (simp add: py_div_def)

lemma py_div_nonzero [simp]: "b \<noteq> 0 \<Longrightarrow> py_div a b = Inr (a / b)"
  by (simp add: py_div_def)

lemma py_div2_nonzero [simp]: "b \<noteq> 0 \<Longrightarrow> c \<noteq> 0 \<Longrightarrow> py_div2 a b c = Inr (a / b / c)"
  by (simp add: py_div2_def)

lemma py_div2_zero: "b = 0 \<or> c = 0 \<Longrightarrow> py_div2 a b c = Inl ZeroDivisionError"
  by (auto simp: py_div2_def py_div_def)


section \<open>Properties of the constructor\<close>

text \<open>
  The two branches of \<^verbatim>\<open>__init__\<close> in closed form. The \<^verbatim>\<open>else\<close> branch is taken as
  soon as one optional parameter is \<open>None\<close>, and then reads none of them.
\<close>

lemma Tsai_Wu_init_else:
  assumes "Yc = None \<or> Yt = None \<or> Sxz = None"
    and "Xc \<noteq> 0" "Xt \<noteq> 0" "Zc \<noteq> 0" "Zt \<noteq> 0" "Sxy \<noteq> 0" "Syz \<noteq> 0"
  shows "Tsai_Wu_init Xc Xt Zc Zt Sxy Syz Yc Yt Sxz =
     (let f11 = 1 / Xc / Xt; f33 = 1 / Zc / Zt; f1 = (Xc - Xt) / Xc / Xt;
          f3 = (Zc - Zt) / Zc / Zt; f66 = 1 / Sxy ^ 2; f44 = 1 / Syz ^ 2
      in Inr \<lparr>F11 = f11, F33 = f33, F1 = f1, F3 = f3, F66 = f66, F44 = f44,
              F2 = f1, F22 = f11, F55 = f44,
              F12 = 4 * sqrt f66 - (2 * f1 * sqrt f66 + 2 * f1 * sqrt f66 + f11 + f11 + f66),
              F13 = 4 * sqrt f44 - (2 * f1 * sqrt f44 + 2 * f3 * sqrt f44 + f11 + f33 + f44),
              F23 = 4 * sqrt f44 - (2 * f1 * sqrt f44 + 2 * f3 * sqrt f44 + f11 + f33 + f44)\<rparr>)"
  using assms by (auto simp: Tsai_Wu_init_def Let_def split: option.splits)

lemma Tsai_Wu_init_then:
  assumes "Xc \<noteq> 0" "Xt \<noteq> 0" "Zc \<noteq> 0" "Zt \<noteq> 0" "Sxy \<noteq> 0" "Syz \<noteq> 0"
    and "yc \<noteq> 0" "yt \<noteq> 0" "sxz \<noteq> 0"
  shows "Tsai_Wu_init Xc Xt Zc Zt Sxy Syz (Some yc) (Some yt) (Some sxz) =
     (let f11 = 1 / Xc / Xt; f33 = 1 / Zc / Zt; f1 = (Xc - Xt) / Xc / Xt;
          f3 = (Zc - Zt) / Zc / Zt; f66 = 1 / Sxy ^ 2; f44 = 1 / Syz ^ 2;
          f2 = (yc - yt) / yc / yt; f22 = 1 / yc / yt; f55 = 1 / sxz ^ 2
      in Inr \<lparr>F11 = f11, F33 = f33, F1 = f1, F3 = f3, F66 = f66, F44 = f44,
              F2 = f2, F22 = f22, F55 = f55,
              F12 = 4 * sqrt f66 - (2 * f1 * sqrt f66 + 2 * f2 * sqrt f66 + f11 + f22 + f66),
              F13 = 4 * sqrt f55 - (2 * f1 * sqrt f55 + 2 * f3 * sqrt f55 + f11 + f33 + f55),
              F23 = 4 * sqrt f44 - (2 * f2 * sqrt f44 + 2 * f3 * sqrt f44 + f22 + f33 + f44)\<rparr>)"
  using assms by (simp add: Tsai_Wu_init_def Let_def)

text \<open>
  The constructor raises exactly when a strength it divides by is zero: one of the six
  required ones, or one of the three optional ones when all three are given.
\<close>

lemma Tsai_Wu_init_raises:
  "Tsai_Wu_init Xc Xt Zc Zt Sxy Syz Yc Yt Sxz = Inl e \<longleftrightarrow>
     Xc = 0 \<or> Xt = 0 \<or> Zc = 0 \<or> Zt = 0 \<or> Sxy = 0 \<or> Syz = 0 \<or>
     (\<exists>yc yt sxz. Yc = Some yc \<and> Yt = Some yt \<and> Sxz = Some sxz \<and>
        (yc = 0 \<or> yt = 0 \<or> sxz = 0))"
  by (cases e)
     (auto simp: Tsai_Wu_init_def Let_def py_div2_def py_div_def py_bind_def
           split: option.splits sum.splits if_splits)

text \<open>
  The arguments of \<^verbatim>\<open>np.sqrt\<close> in the constructor are positive, so no NaN arises there.
\<close>

lemma Tsai_Wu_init_shear_pos:
  assumes "Tsai_Wu_init Xc Xt Zc Zt Sxy Syz Yc Yt Sxz = Inr m"
  shows "0 < F66 m \<and> 0 < F55 m \<and> 0 < F44 m"
  using assms
  by (auto simp: Tsai_Wu_init_def Let_def py_div2_def py_div_def py_bind_def
           split: option.splits sum.splits if_splits)

text \<open>
  Claim C3. For every construction whose strength parameters are non-zero (the six
  required ones and whichever optional ones are given), the constructor returns an
  object, and its coefficients are \<open>F11 = 1/(Xc*Xt)\<close>, \<open>F33 = 1/(Zc*Zt)\<close>,
  \<open>F1 = (Xc-Xt)/(Xc*Xt)\<close>, \<open>F3 = (Zc-Zt)/(Zc*Zt)\<close>, \<open>F66 = 1/Sxy^2\<close>, \<open>F44 = 1/Syz^2\<close>;
  \<open>F2 = (Yc-Yt)/(Yc*Yt)\<close>, \<open>F22 = 1/(Yc*Yt)\<close>, \<open>F55 = 1/Sxz^2\<close> when \<open>Yc\<close>, \<open>Yt\<close> and
  \<open>Sxz\<close> are all given, and \<open>F2 = F1\<close>, \<open>F22 = F11\<close>, \<open>F55 = F44\<close> otherwise; and each
  interaction coefficient is four times the square root of its shear coefficient minus
  the sum given in the specification: the closed form, not the constant \<open>-1\<close>. All
  twelve attributes of the object are thereby determined by the parameters.
\<close>

theorem Tsai_Wu_init_coefficients:
  assumes "Xc \<noteq> 0" "Xt \<noteq> 0" "Zc \<noteq> 0" "Zt \<noteq> 0" "Sxy \<noteq> 0" "Syz \<noteq> 0"
    and "Yc \<noteq> Some 0" "Yt \<noteq> Some 0" "Sxz \<noteq> Some 0"
  shows "\<exists>m. Tsai_Wu_init Xc Xt Zc Zt Sxy Syz Yc Yt Sxz = Inr m \<and>
     F11 m = 1 / (Xc * Xt) \<and> F33 m = 1 / (Zc * Zt) \<and>
     F1 m = (Xc - Xt) / (Xc * Xt) \<and> F3 m = (Zc - Zt) / (Zc * Zt) \<and>
     F66 m = 1 / Sxy ^ 2 \<and> F44 m = 1 / Syz ^ 2 \<and>
     F2 m = (case (Yc, Yt, Sxz) of
               (Some yc, Some yt, Some sxz) \<Rightarrow> (yc - yt) / (yc * yt)
             | _ \<Rightarrow> F1 m) \<and>
     F22 m = (case (Yc, Yt, Sxz) of
               (Some yc, Some yt, Some sxz) \<Rightarrow> 1 / (yc * yt)
             | _ \<Rightarrow> F11 m) \<and>
     F55 m = (case (Yc, Yt, Sxz) of
               (Some yc, Some yt, Some sxz) \<Rightarrow> 1 / sxz ^ 2
             | _ \<Rightarrow> F44 m) \<and>
     F12 m = 4 * sqrt (F66 m)
             - (2 * F1 m * sqrt (F66 m) + 2 * F2 m * sqrt (F66 m) + F11 m + F22 m + F66 m) \<and>
     F13 m = 4 * sqrt (F55 m)
             - (2 * F1 m * sqrt (F55 m) + 2 * F3 m * sqrt (F55 m) + F11 m + F33 m + F55 m) \<and>
     F23 m = 4 * sqrt (F44 m)
             - (2 * F2 m * sqrt (F44 m) + 2 * F3 m * sqrt (F44 m) + F22 m + F33 m + F44 m)"
proof (cases "Yc = None \<or> Yt = None \<or> Sxz = None")
  case True
  then show ?thesis
    using assms by (auto simp: Tsai_Wu_init_else Let_def split: option.splits)
next
  case False
  then obtain yc yt sxz where "Yc = Some yc" "Yt = Some yt" "Sxz = Some sxz"
    by auto
  then show ?thesis
    using assms by (simp add: Tsai_Wu_init_then Let_def)
qed

lemma sqrt_quarter: "sqrt (1 / 4) = 1 / 2"
  by (rule real_sqrt_unique) (simp_all add: power2_eq_square)

text \<open>
  The theorem on both branches: at \<^verbatim>\<open>Tsai_Wu(2, 1, 2, 1, 1, 1, 4, 1, 2)\<close>, where
  \<open>F2 = 3/4\<close>, \<open>F22 = F55 = 1/4\<close> differ from \<open>F1\<close>, \<open>F11\<close>, \<open>F44\<close> and
  \<open>F12 = F13 = F23 = -1/4\<close>, and at \<^verbatim>\<open>Tsai_Wu(2, 1, 2, 1, 1, 1)\<close>, where
  \<open>F12 = F13 = F23 = 0\<close>; neither is the constant \<open>-1\<close>.
\<close>

theorem Tsai_Wu_init_coefficients_witness:
  "(2::real) \<noteq> 0 \<and> (1::real) \<noteq> 0 \<and>
   Some (4::real) \<noteq> Some 0 \<and> Some (1::real) \<noteq> Some 0 \<and> Some (2::real) \<noteq> Some 0 \<and>
   (\<exists>m. Tsai_Wu_init 2 1 2 1 1 1 (Some 4) (Some 1) (Some 2) = Inr m \<and>
        F11 m = 1 / (2 * 1) \<and> F33 m = 1 / (2 * 1) \<and>
        F1 m = (2 - 1) / (2 * 1) \<and> F3 m = (2 - 1) / (2 * 1) \<and>
        F66 m = 1 / 1 ^ 2 \<and> F44 m = 1 / 1 ^ 2 \<and>
        F2 m = (4 - 1) / (4 * 1) \<and> F22 m = 1 / (4 * 1) \<and> F55 m = 1 / 2 ^ 2 \<and>
        F12 m = 4 * sqrt (F66 m)
             - (2 * F1 m * sqrt (F66 m) + 2 * F2 m * sqrt (F66 m) + F11 m + F22 m + F66 m) \<and>
        F13 m = 4 * sqrt (F55 m)
             - (2 * F1 m * sqrt (F55 m) + 2 * F3 m * sqrt (F55 m) + F11 m + F33 m + F55 m) \<and>
        F23 m = 4 * sqrt (F44 m)
             - (2 * F2 m * sqrt (F44 m) + 2 * F3 m * sqrt (F44 m) + F22 m + F33 m + F44 m)) \<and>
   Tsai_Wu_init 2 1 2 1 1 1 (Some 4) (Some 1) (Some 2) =
     Inr \<lparr>F11 = 1/2, F33 = 1/2, F1 = 1/2, F3 = 1/2, F66 = 1, F44 = 1,
          F2 = 3/4, F22 = 1/4, F55 = 1/4, F12 = - (1/4), F13 = - (1/4), F23 = - (1/4)\<rparr> \<and>
   (None :: real option) \<noteq> Some 0 \<and>
   (\<exists>m. Tsai_Wu_init 2 1 2 1 1 1 None None None = Inr m \<and>
        F11 m = 1 / (2 * 1) \<and> F33 m = 1 / (2 * 1) \<and>
        F1 m = (2 - 1) / (2 * 1) \<and> F3 m = (2 - 1) / (2 * 1) \<and>
        F66 m = 1 / 1 ^ 2 \<and> F44 m = 1 / 1 ^ 2 \<and>
        F2 m = F1 m \<and> F22 m = F11 m \<and> F55 m = F44 m \<and>
        F12 m = 4 * sqrt (F66 m)
             - (2 * F1 m * sqrt (F66 m) + 2 * F2 m * sqrt (F66 m) + F11 m + F22 m + F66 m) \<and>
        F13 m = 4 * sqrt (F55 m)
             - (2 * F1 m * sqrt (F55 m) + 2 * F3 m * sqrt (F55 m) + F11 m + F33 m + F55 m) \<and>
        F23 m = 4 * sqrt (F44 m)
             - (2 * F2 m * sqrt (F44 m) + 2 * F3 m * sqrt (F44 m) + F22 m + F33 m + F44 m))"
proof -
  have a: "\<exists>m. Tsai_Wu_init 2 1 2 1 1 1 (Some 4) (Some 1) (Some 2) = Inr m \<and>
        F11 m = 1 / (2 * 1) \<and> F33 m = 1 / (2 * 1) \<and>
        F1 m = (2 - 1) / (2 * 1) \<and> F3 m = (2 - 1) / (2 * 1) \<and>
        F66 m = 1 / 1 ^ 2 \<and> F44 m = 1 / 1 ^ 2 \<and>
        F2 m = (4 - 1) / (4 * 1) \<and> F22 m = 1 / (4 * 1) \<and> F55 m = 1 / 2 ^ 2 \<and>
        F12 m = 4 * sqrt (F66 m)
             - (2 * F1 m * sqrt (F66 m) + 2 * F2 m * sqrt (F66 m) + F11 m + F22 m + F66 m) \<and>
        F13 m = 4 * sqrt (F55 m)
             - (2 * F1 m * sqrt (F55 m) + 2 * F3 m * sqrt (F55 m) + F11 m + F33 m + F55 m) \<and>
        F23 m = 4 * sqrt (F44 m)
             - (2 * F2 m * sqrt (F44 m) + 2 * F3 m * sqrt (F44 m) + F22 m + F33 m + F44 m)"
    using Tsai_Wu_init_coefficients [of 2 1 2 1 1 1 "Some 4" "Some 1" "Some 2"] by simp
  have b: "Tsai_Wu_init 2 1 2 1 1 1 (Some 4) (Some 1) (Some 2) =
     Inr \<lparr>F11 = 1/2, F33 = 1/2, F1 = 1/2, F3 = 1/2, F66 = 1, F44 = 1,
          F2 = 3/4, F22 = 1/4, F55 = 1/4, F12 = - (1/4), F13 = - (1/4), F23 = - (1/4)\<rparr>"
    by (simp add: Tsai_Wu_init_def Let_def sqrt_quarter)
  have c: "\<exists>m. Tsai_Wu_init 2 1 2 1 1 1 None None None = Inr m \<and>
        F11 m = 1 / (2 * 1) \<and> F33 m = 1 / (2 * 1) \<and>
        F1 m = (2 - 1) / (2 * 1) \<and> F3 m = (2 - 1) / (2 * 1) \<and>
        F66 m = 1 / 1 ^ 2 \<and> F44 m = 1 / 1 ^ 2 \<and>
        F2 m = F1 m \<and> F22 m = F11 m \<and> F55 m = F44 m \<and>
        F12 m = 4 * sqrt (F66 m)
             - (2 * F1 m * sqrt (F66 m) + 2 * F2 m * sqrt (F66 m) + F11 m + F22 m + F66 m) \<and>
        F13 m = 4 * sqrt (F55 m)
             - (2 * F1 m * sqrt (F55 m) + 2 * F3 m * sqrt (F55 m) + F11 m + F33 m + F55 m) \<and>
        F23 m = 4 * sqrt (F44 m)
             - (2 * F2 m * sqrt (F44 m) + 2 * F3 m * sqrt (F44 m) + F22 m + F33 m + F44 m)"
    using Tsai_Wu_init_coefficients [of 2 1 2 1 1 1 None None None] by simp
  show ?thesis
    by (intro conjI a b c) simp_all
qed

text \<open>
  Claim C4. An object constructed from the six required parameters alone, the three
  optional ones all absent, has \<open>F2 = F1\<close>, \<open>F22 = F11\<close> and \<open>F55 = F44\<close>, exactly.
\<close>

theorem Tsai_Wu_init_required_only:
  assumes "Tsai_Wu_init Xc Xt Zc Zt Sxy Syz None None None = Inr m"
  shows "F2 m = F1 m \<and> F22 m = F11 m \<and> F55 m = F44 m"
  using assms
  by (auto simp: Tsai_Wu_init_def Let_def py_div2_def py_div_def py_bind_def
           split: sum.splits if_splits)

text \<open>The theorem at \<^verbatim>\<open>Tsai_Wu(2, 1, 2, 1, 1, 1)\<close>, whose object is written out.\<close>

theorem Tsai_Wu_init_required_only_witness:
  "Tsai_Wu_init 2 1 2 1 1 1 None None None =
     Inr \<lparr>F11 = 1/2, F33 = 1/2, F1 = 1/2, F3 = 1/2, F66 = 1, F44 = 1,
          F2 = 1/2, F22 = 1/2, F55 = 1, F12 = 0, F13 = 0, F23 = 0\<rparr> \<and>
   F2 \<lparr>F11 = 1/2, F33 = 1/2, F1 = 1/2, F3 = 1/2, F66 = 1, F44 = 1,
       F2 = 1/2, F22 = 1/2, F55 = 1, F12 = 0, F13 = 0, F23 = 0\<rparr> = (1/2 :: real)"
proof -
  have h: "Tsai_Wu_init 2 1 2 1 1 1 None None None =
     Inr \<lparr>F11 = 1/2, F33 = 1/2, F1 = 1/2, F3 = 1/2, F66 = 1, F44 = 1,
          F2 = 1/2, F22 = 1/2, F55 = 1, F12 = 0, F13 = 0, F23 = 0\<rparr>"
    by (simp add: Tsai_Wu_init_def Let_def)
  show ?thesis
    using h Tsai_Wu_init_required_only [OF h] by simp
qed

text \<open>
  Claim C10. When at least one of \<open>Yc\<close>, \<open>Yt\<close>, \<open>Sxz\<close> is absent, one or two of them
  given included, and the six required strengths are non-zero, the constructor returns
  an object without raising, with \<open>F2 = F1\<close>, \<open>F22 = F11\<close> and \<open>F55 = F44\<close>; the
  optional values that were given are ignored, whatever they are: the object is the
  one constructed with all three absent.
\<close>

theorem Tsai_Wu_init_partial_optional:
  assumes "Yc = None \<or> Yt = None \<or> Sxz = None"
    and "Xc \<noteq> 0" "Xt \<noteq> 0" "Zc \<noteq> 0" "Zt \<noteq> 0" "Sxy \<noteq> 0" "Syz \<noteq> 0"
  shows "\<exists>m. Tsai_Wu_init Xc Xt Zc Zt Sxy Syz Yc Yt Sxz = Inr m \<and>
     F2 m = F1 m \<and> F22 m = F11 m \<and> F55 m = F44 m \<and>
     Tsai_Wu_init Xc Xt Zc Zt Sxy Syz None None None = Inr m"
proof -
  have "Tsai_Wu_init Xc Xt Zc Zt Sxy Syz Yc Yt Sxz =
        Tsai_Wu_init Xc Xt Zc Zt Sxy Syz None None None"
    using assms by (simp add: Tsai_Wu_init_else)
  then show ?thesis
    using assms by (simp add: Tsai_Wu_init_else Let_def)
qed

text \<open>
  The theorem at \<^verbatim>\<open>Tsai_Wu(2, 1, 2, 1, 1, 1, Yc = 0, Sxz = 7)\<close>: the zero given for
  \<open>Yc\<close> is never divided by.
\<close>

theorem Tsai_Wu_init_partial_optional_witness:
  "(Some (0::real) = None \<or> (None :: real option) = None \<or> Some (7::real) = None) \<and>
   (2::real) \<noteq> 0 \<and> (1::real) \<noteq> 0 \<and>
   (\<exists>m. Tsai_Wu_init 2 1 2 1 1 1 (Some 0) None (Some 7) = Inr m \<and>
        F2 m = F1 m \<and> F22 m = F11 m \<and> F55 m = F44 m \<and>
        Tsai_Wu_init 2 1 2 1 1 1 None None None = Inr m)"
  using Tsai_Wu_init_partial_optional [of "Some 0" None "Some 7" 2 1 2 1 1 1] by simp


section \<open>Properties of \<^verbatim>\<open>criterio\<close>\<close>

lemma sqrt_16: "sqrt 16 = 4"
  by (rule real_sqrt_unique) simp_all

text \<open>
  The expression of the source, \<^verbatim>\<open>1/2/A*(np.sqrt((B**2) + 4*A) - B)\<close>, and the
  formula of the specification agree on every \<open>A\<close> and \<open>B\<close>, the degenerate ones
  included: with \<open>A = 0\<close> both are NaN when \<open>B \<ge> 0\<close> and \<open>+inf\<close> when \<open>B < 0\<close>, and with
  a negative discriminant both are NaN.
\<close>

lemma safety_factor_code_eq_spec:
  "np_mul (np_div (Finite (1 / 2)) (Finite A))
          (np_sub (np_sqrt (Finite (B ^ 2 + 4 * A))) (Finite B)) = safety_factor_spec A B"
proof (cases "A = 0")
  case True
  have "\<bar>B\<bar> - B = 0 \<or> 0 < \<bar>B\<bar> - B" by linarith
  then show ?thesis
    using True by (auto simp: safety_factor_spec_def)
next
  case False
  then show ?thesis
    by (simp add: safety_factor_spec_def)
qed

lemma safety_factor_spec_finite:
  "A \<noteq> 0 \<Longrightarrow> 0 \<le> B ^ 2 + 4 * A \<Longrightarrow>
   safety_factor_spec A B = Finite ((sqrt (B ^ 2 + 4 * A) - B) / (2 * A))"
  by (simp add: safety_factor_spec_def)

lemma safety_factor_spec_degenerate:
  "A = 0 \<or> B ^ 2 + 4 * A < 0 \<Longrightarrow>
   safety_factor_spec A B = NaN \<or> safety_factor_spec A B = PInf"
  apply (cases "A = 0")
  subgoal
    using abs_ge_self [of B] by (auto simp: safety_factor_spec_def)
  subgoal by (simp add: safety_factor_spec_def)
  done

text \<open>
  The line printed, with the two branches of the source merged (they compute the same
  \<open>A\<close>, \<open>B\<close> and safety factor), and the value returned.
\<close>

lemma criterio_line:
  "fst (criterio self x y z xy xz yz) =
     (let R = F1 self * x + F2 self * y + F3 self * z
            + F11 self * x ^ 2 + F22 self * y ^ 2 + F33 self * z ^ 2
            + F44 self * yz ^ 2 + F55 self * xz ^ 2 + F66 self * xy ^ 2
            + 2 * F12 self * x * y + 2 * F13 self * x * z + 2 * F23 self * y * z;
          A = F11 self * x ^ 2 + F22 self * y ^ 2 + F33 self * z ^ 2
            + F44 self * yz + F55 self * xz + F66 self * xy
            - F12 self * x * y - F13 self * x * z - F23 self * y * z;
          B = F1 self * x + F2 self * y + F3 self * z
      in if \<bar>R\<bar> \<ge> 1 then Vai_falhar R (safety_factor_spec A B)
         else Nao_vai_falhar R (safety_factor_spec A B))"
  unfolding criterio_def Let_def safety_factor_code_eq_spec by simp

lemma criterio_self: "snd (criterio self x y z xy xz yz) = self"
  by (simp add: criterio_def Let_def)

text \<open>
  Claim C1. For every stress input, the safety factor that \<open>criterio\<close> reports is
  \<open>(sqrt(B^2 + 4A) - B) / (2A)\<close> with \<open>B = F1*x + F2*y + F3*z\<close> and
  \<open>A = F11*x^2 + F22*y^2 + F33*z^2 + F44*yz + F55*xz + F66*xy - F12*x*y - F13*x*z - F23*y*z\<close>
  (shear terms linear, interaction terms subtracted), in the failing branch and in the
  other one alike: as numpy scalars for every input, and as the real number that the
  formula denotes whenever \<open>A\<close> is non-zero and the discriminant is not negative.
\<close>

theorem criterio_safety_factor:
  "let A = F11 self * x ^ 2 + F22 self * y ^ 2 + F33 self * z ^ 2
         + F44 self * yz + F55 self * xz + F66 self * xy
         - F12 self * x * y - F13 self * x * z - F23 self * y * z;
       B = F1 self * x + F2 self * y + F3 self * z;
       k = line_fator (fst (criterio self x y z xy xz yz))
   in k = safety_factor_spec A B \<and>
      (A \<noteq> 0 \<and> 0 \<le> B ^ 2 + 4 * A \<longrightarrow> k = Finite ((sqrt (B ^ 2 + 4 * A) - B) / (2 * A)))"
  unfolding criterio_line Let_def
  by (auto simp: safety_factor_spec_finite)

text \<open>
  The theorem on the object of \<^verbatim>\<open>Tsai_Wu(2, 1, 2, 1, 1, 1)\<close> at \<open>yz = 4\<close>: there
  \<open>A = 4\<close>, \<open>B = 0\<close> and the factor is \<open>(sqrt 16 - 0) / 8 = 1/2\<close>.
\<close>

theorem criterio_safety_factor_witness:
  "(1/2 :: real) * 0 ^ 2 + 1/2 * 0 ^ 2 + 1/2 * 0 ^ 2 + 1 * 4 + 1 * 0 + 1 * 0
     - 0 * 0 * 0 - 0 * 0 * 0 - 0 * 0 * 0 \<noteq> 0 \<and>
   (0::real) \<le> (1/2 * 0 + 1/2 * 0 + 1/2 * 0) ^ 2 + 4 * 4 \<and>
   line_fator (fst (criterio
     \<lparr>F11 = 1/2, F33 = 1/2, F1 = 1/2, F3 = 1/2, F66 = 1, F44 = 1,
      F2 = 1/2, F22 = 1/2, F55 = 1, F12 = 0, F13 = 0, F23 = 0\<rparr> 0 0 0 0 0 4)) = Finite (1/2)"
  using criterio_safety_factor
    [of "\<lparr>F11 = 1/2, F33 = 1/2, F1 = 1/2, F3 = 1/2, F66 = 1, F44 = 1,
          F2 = 1/2, F22 = 1/2, F55 = 1, F12 = 0, F13 = 0, F23 = 0\<rparr>" 0 0 0 4 0 0]
  by (simp add: Let_def sqrt_16 safety_factor_spec_def)

text \<open>
  Claim C2. For every stress input, \<open>criterio\<close> computes the failure index
  \<open>R = F1*x + F2*y + F3*z + F11*x^2 + F22*y^2 + F33*z^2 + F44*yz^2 + F55*xz^2 + F66*xy^2
  + 2*F12*x*y + 2*F13*x*z + 2*F23*y*z\<close>, and reports failure exactly when \<open>|R| \<ge> 1\<close>.
\<close>

theorem criterio_failure_index:
  "let R = F1 self * x + F2 self * y + F3 self * z
         + F11 self * x ^ 2 + F22 self * y ^ 2 + F33 self * z ^ 2
         + F44 self * yz ^ 2 + F55 self * xz ^ 2 + F66 self * xy ^ 2
         + 2 * F12 self * x * y + 2 * F13 self * x * z + 2 * F23 self * y * z
   in line_R (fst (criterio self x y z xy xz yz)) = R \<and>
      line_falha (fst (criterio self x y z xy xz yz)) = (\<bar>R\<bar> \<ge> 1)"
  unfolding criterio_line Let_def by simp

text \<open>
  Claim C5. At the all-zero stress state \<open>criterio\<close> reports \<open>R = 0\<close> and no failure,
  and the safety factor it reports is NaN: the division by \<open>A = 0\<close> is not hidden
  behind a number.
\<close>

theorem criterio_zero_stress:
  "criterio self 0 0 0 0 0 0 = (Nao_vai_falhar 0 NaN, self)"
  by (simp add: criterio_def)

text \<open>
  Claim C6, as amended. For every stress input, \<open>criterio\<close> prints the report, which
  carries the failure index, the verdict and the safety factor, and returns the object
  itself; it returns no structured result.
\<close>

theorem criterio_report_and_return:
  "let R = F1 self * x + F2 self * y + F3 self * z
         + F11 self * x ^ 2 + F22 self * y ^ 2 + F33 self * z ^ 2
         + F44 self * yz ^ 2 + F55 self * xz ^ 2 + F66 self * xy ^ 2
         + 2 * F12 self * x * y + 2 * F13 self * x * z + 2 * F23 self * y * z;
       A = F11 self * x ^ 2 + F22 self * y ^ 2 + F33 self * z ^ 2
         + F44 self * yz + F55 self * xz + F66 self * xy
         - F12 self * x * y - F13 self * x * z - F23 self * y * z;
       B = F1 self * x + F2 self * y + F3 self * z
   in criterio self x y z xy xz yz =
        (if \<bar>R\<bar> \<ge> 1 then Vai_falhar R (safety_factor_spec A B)
         else Nao_vai_falhar R (safety_factor_spec A B), self)"
  using criterio_line [of self x y z xy xz yz] criterio_self [of self x y z xy xz yz]
  by (simp add: Let_def prod_eq_iff)

text \<open>
  Claim C6 as stated fails: on the object of \<^verbatim>\<open>Tsai_Wu(2, 1, 2, 1, 1, 1)\<close>, the calls
  with \<open>yz = 4\<close> and with \<open>yz = 0\<close> return the same value, although the first has
  \<open>R = 16\<close>, fails and has safety factor \<open>1/2\<close>, and the second has \<open>R = 0\<close>, does not
  fail and has safety factor NaN. The value returned holds none of the three.
\<close>

theorem criterio_result_counterexample:
  "snd (criterio \<lparr>F11 = 1/2, F33 = 1/2, F1 = 1/2, F3 = 1/2, F66 = 1, F44 = 1,
                  F2 = 1/2, F22 = 1/2, F55 = 1, F12 = 0, F13 = 0, F23 = 0\<rparr> 0 0 0 0 0 4) =
   snd (criterio \<lparr>F11 = 1/2, F33 = 1/2, F1 = 1/2, F3 = 1/2, F66 = 1, F44 = 1,
                  F2 = 1/2, F22 = 1/2, F55 = 1, F12 = 0, F13 = 0, F23 = 0\<rparr> 0 0 0 0 0 0) \<and>
   fst (criterio \<lparr>F11 = 1/2, F33 = 1/2, F1 = 1/2, F3 = 1/2, F66 = 1, F44 = 1,
                  F2 = 1/2, F22 = 1/2, F55 = 1, F12 = 0, F13 = 0, F23 = 0\<rparr> 0 0 0 0 0 4) =
     Vai_falhar 16 (Finite (1/2)) \<and>
   fst (criterio \<lparr>F11 = 1/2, F33 = 1/2, F1 = 1/2, F3 = 1/2, F66 = 1, F44 = 1,
                  F2 = 1/2, F22 = 1/2, F55 = 1, F12 = 0, F13 = 0, F23 = 0\<rparr> 0 0 0 0 0 0) =
     Nao_vai_falhar 0 NaN"
  by (simp add: criterio_def Let_def sqrt_16)

text \<open>
  What the scaled stress state evaluates to. When the reported safety factor \<open>k\<close> is
  a number, \<open>A*k^2 + B*k = 1\<close>, so the failure index of the stress state scaled by \<open>k\<close>
  is \<open>1 + k^2 * (Q - A)\<close>, where \<open>Q\<close> is the quadratic part of \<open>R\<close>. It is \<open>1\<close> only
  where \<open>Q = A\<close>, and \<open>Q - A = F44*(yz^2 - yz) + F55*(xz^2 - xz) + F66*(xy^2 - xy)
  + 3*F12*x*y + 3*F13*x*z + 3*F23*y*z\<close>.
\<close>

lemma criterio_scaled_index:
  fixes self :: Tsai_Wu and x y z xy xz yz :: real
  defines "A \<equiv> F11 self * x ^ 2 + F22 self * y ^ 2 + F33 self * z ^ 2
         + F44 self * yz + F55 self * xz + F66 self * xy
         - F12 self * x * y - F13 self * x * z - F23 self * y * z"
    and "B \<equiv> F1 self * x + F2 self * y + F3 self * z"
    and "Q \<equiv> F11 self * x ^ 2 + F22 self * y ^ 2 + F33 self * z ^ 2
         + F44 self * yz ^ 2 + F55 self * xz ^ 2 + F66 self * xy ^ 2
         + 2 * F12 self * x * y + 2 * F13 self * x * z + 2 * F23 self * y * z"
  assumes A: "A \<noteq> 0" and d: "0 \<le> B ^ 2 + 4 * A"
    and k: "k = (sqrt (B ^ 2 + 4 * A) - B) / (2 * A)"
  shows "line_fator (fst (criterio self x y z xy xz yz)) = Finite k"
    and "line_R (fst (criterio self (k * x) (k * y) (k * z) (k * xy) (k * xz) (k * yz)))
         = 1 + k ^ 2 * (Q - A)"
proof -
  show "line_fator (fst (criterio self x y z xy xz yz)) = Finite k"
    unfolding criterio_line Let_def
    using A d k by (simp add: safety_factor_spec_finite A_def B_def)
  define s where "s = sqrt (B ^ 2 + 4 * A)"
  have s2: "s ^ 2 = B ^ 2 + 4 * A"
    using d by (simp add: s_def)
  have ks: "2 * A * k = s - B"
    using A k by (simp add: s_def)
  have "4 * A * (A * k ^ 2 + B * k) = (2 * A * k) ^ 2 + 2 * B * (2 * A * k)"
    by (simp add: power2_eq_square algebra_simps)
  also have "\<dots> = (s - B) ^ 2 + 2 * B * (s - B)"
    by (simp add: ks)
  also have "\<dots> = s ^ 2 - B ^ 2"
    by (simp add: power2_eq_square algebra_simps)
  also have "\<dots> = 4 * A"
    by (simp add: s2)
  finally have root: "A * k ^ 2 + B * k = 1"
    using A by simp
  have "line_R (fst (criterio self (k * x) (k * y) (k * z) (k * xy) (k * xz) (k * yz)))
        = B * k + Q * k ^ 2"
    unfolding criterio_line Let_def
    by (simp add: B_def Q_def power2_eq_square algebra_simps)
  also have "\<dots> = (A * k ^ 2 + B * k) + k ^ 2 * (Q - A)"
    by (simp add: algebra_simps)
  finally show "line_R (fst (criterio self (k * x) (k * y) (k * z) (k * xy) (k * xz) (k * yz)))
         = 1 + k ^ 2 * (Q - A)"
    by (simp add: root)
qed

text \<open>
  Claim C7 fails on the code. \<^verbatim>\<open>Tsai_Wu(2, 1, 2, 1, 1, 1).criterio(yz = 4)\<close> reports
  the safety factor \<open>1/2\<close>, and the stress state scaled by it, \<open>yz = 2\<close>, has the failure
  index \<open>4\<close>, not \<open>1\<close>. All numbers involved are exact in binary floating point.
\<close>

theorem criterio_scaling_fails:
  "Tsai_Wu_init 2 1 2 1 1 1 None None None =
     Inr \<lparr>F11 = 1/2, F33 = 1/2, F1 = 1/2, F3 = 1/2, F66 = 1, F44 = 1,
          F2 = 1/2, F22 = 1/2, F55 = 1, F12 = 0, F13 = 0, F23 = 0\<rparr> \<and>
   line_fator (fst (criterio
     \<lparr>F11 = 1/2, F33 = 1/2, F1 = 1/2, F3 = 1/2, F66 = 1, F44 = 1,
      F2 = 1/2, F22 = 1/2, F55 = 1, F12 = 0, F13 = 0, F23 = 0\<rparr> 0 0 0 0 0 4)) = Finite (1/2) \<and>
   line_R (fst (criterio
     \<lparr>F11 = 1/2, F33 = 1/2, F1 = 1/2, F3 = 1/2, F66 = 1, F44 = 1,
      F2 = 1/2, F22 = 1/2, F55 = 1, F12 = 0, F13 = 0, F23 = 0\<rparr>
     (1/2 * 0) (1/2 * 0) (1/2 * 0) (1/2 * 0) (1/2 * 0) (1/2 * 4))) = 4"
  by (simp add: Tsai_Wu_init_def criterio_def Let_def sqrt_16)

text \<open>
  Claim C9. \<open>criterio\<close> does not change the object: the value it returns is \<open>self\<close>,
  with all twelve coefficients as they were, and a second evaluation chained on the
  returned value prints and returns what an independent evaluation on the object does.
\<close>

theorem criterio_returns_self:
  "snd (criterio self x y z xy xz yz) = self \<and>
   criterio (snd (criterio self x y z xy xz yz)) x' y' z' xy' xz' yz' =
   criterio self x' y' z' xy' xz' yz'"
  by (simp add: criterio_self)


section \<open>Properties of \<^verbatim>\<open>tensao\<close>\<close>

text \<open>
  The second moment of area \<open>Ix\<close> is positive for a box whose walls leave a hollow,
  \<open>0 < t\<close>, \<open>2t < h\<close> and \<open>2t < b\<close>; with \<open>h\<close> and \<open>b\<close> exchanged the same holds of
  \<open>Iy\<close>, hence of \<open>J\<close>. For such a section no division of \<open>tensao\<close> raises.
\<close>

lemma tensao_geometry:
  fixes h b t :: real
  assumes "0 < t" "2 * t < h" "2 * t < b"
  shows "0 < b * h ^ 3 / 12 - (b - 2 * t) * (h - 2 * t) ^ 3 / 12"
proof -
  have "(h - 2 * t) ^ 3 < h ^ 3"
    using assms by (intro power_strict_mono) simp_all
  moreover have "0 < (h - 2 * t) ^ 3"
    using assms by simp
  ultimately have "(b - 2 * t) * (h - 2 * t) ^ 3 < b * h ^ 3"
    using assms by (intro mult_strict_mono) simp_all
  then show ?thesis by simp
qed

lemma tensao_geometry_J:
  fixes h b t :: real
  assumes "0 < t" "2 * t < h" "2 * t < b"
  shows "0 < (b * h ^ 3 / 12 - (b - 2 * t) * (h - 2 * t) ^ 3 / 12)
           + (h * b ^ 3 / 12 - (h - 2 * t) * (b - 2 * t) ^ 3 / 12)"
  using tensao_geometry [of t h b] tensao_geometry [of t b h] assms
  by (intro add_pos_pos) simp_all

text \<open>
  Claim C8. With \<open>Ix = b*h^3/12 - (b-2t)*(h-2t)^3/12\<close>,
  \<open>Iy = h*b^3/12 - (h-2t)*(b-2t)^3/12\<close>, \<open>J = Ix + Iy\<close> and
  \<open>Q = (h*b - (h-2t)*(b-2t))*h/2\<close>, \<open>tensao\<close> returns exactly the 6-tuple
  \<open>(X, 0, 0, 0, 0, YZ)\<close> where \<open>X = -(MF*(h/2)/Ix)\<close> and
  \<open>YZ = |MTt*(h/2)/J| + |MTp*(h/2)/J| + |FC*Q/(Ix*2t)|\<close>, for every input at which the
  divisors \<open>Ix\<close> and \<open>J\<close> are not zero (then \<open>t\<close> is not zero either).
\<close>

theorem tensao_formula:
  assumes "Ix = b * h ^ 3 / 12 - (b - 2 * t) * (h - 2 * t) ^ 3 / 12"
    and "Iy = h * b ^ 3 / 12 - (h - 2 * t) * (b - 2 * t) ^ 3 / 12"
    and "J = Ix + Iy"
    and "Q = (h * b - (h - 2 * t) * (b - 2 * t)) * h / 2"
    and "Ix \<noteq> 0" "J \<noteq> 0"
  shows "tensao h b t MF MTp FC MTt =
     Inr (- (MF * (h / 2) / Ix), 0, 0, 0, 0,
          \<bar>MTt * (h / 2) / J\<bar> + \<bar>MTp * (h / 2) / J\<bar> + \<bar>FC * Q / (Ix * (2 * t))\<bar>)"
proof -
  have t: "t \<noteq> 0"
    using assms(1,5) by auto
  have d: "Ix * (2 * t) \<noteq> 0"
    using t assms(5) by simp
  have "tensao h b t MF MTp FC MTt =
     py_bind (py_div (MF * (h / 2)) Ix) (\<lambda>q.
     py_bind (py_div (MTt * (h / 2)) J) (\<lambda>q1.
     py_bind (py_div (MTp * (h / 2)) J) (\<lambda>q2.
     py_bind (py_div (FC * Q) (Ix * (2 * t))) (\<lambda>q3.
     Inr (- q, 0, 0, 0, 0, \<bar>q1\<bar> + \<bar>q2\<bar> + \<bar>q3\<bar>)))))"
    by (simp only: tensao_def Let_def assms(1-4))
  also have "\<dots> = Inr (- (MF * (h / 2) / Ix), 0, 0, 0, 0,
          \<bar>MTt * (h / 2) / J\<bar> + \<bar>MTp * (h / 2) / J\<bar> + \<bar>FC * Q / (Ix * (2 * t))\<bar>)"
    using assms(5,6) d by simp
  finally show ?thesis .
qed

text \<open>
  The theorem at \<^verbatim>\<open>tensao(2, 2, 1/2, 5, 5, 5, -5)\<close>: \<open>Ix = Iy = 5/4\<close>, \<open>J = 5/2\<close>,
  \<open>Q = 3\<close>, and the result is \<open>(-4, 0, 0, 0, 0, 16)\<close>.
\<close>

theorem tensao_formula_witness:
  "(5/4 :: real) = 2 * 2 ^ 3 / 12 - (2 - 2 * (1/2)) * (2 - 2 * (1/2)) ^ 3 / 12 \<and>
   (5/4 :: real) = 2 * 2 ^ 3 / 12 - (2 - 2 * (1/2)) * (2 - 2 * (1/2)) ^ 3 / 12 \<and>
   (5/2 :: real) = 5/4 + 5/4 \<and>
   (3 :: real) = (2 * 2 - (2 - 2 * (1/2)) * (2 - 2 * (1/2))) * 2 / 2 \<and>
   (5/4 :: real) \<noteq> 0 \<and> (5/2 :: real) \<noteq> 0 \<and>
   tensao 2 2 (1/2) 5 5 5 (-5) = Inr (- 4, 0, 0, 0, 0, 16)"
proof -
  have a: "(5/4 :: real) = 2 * 2 ^ 3 / 12 - (2 - 2 * (1/2)) * (2 - 2 * (1/2)) ^ 3 / 12"
    by simp
  have j: "(5/2 :: real) = 5/4 + 5/4" by simp
  have q: "(3 :: real) = (2 * 2 - (2 - 2 * (1/2)) * (2 - 2 * (1/2))) * 2 / 2" by simp
  have n1: "(5/4 :: real) \<noteq> 0" by simp
  have n2: "(5/2 :: real) \<noteq> 0" by simp
  show ?thesis
    using tensao_formula [OF a a j q n1 n2, of 5 5 5 "-5"] by simp
qed

end
